theory Spec2Isabelle
  imports Main "HOL-Library.Word"
begin

text \<open>
  A model of \<open>post_ood_logs_to_access_mms.py\<close>: the pipeline runner \<open>__run_pipeline\<close>, the
  value resolver \<open>__find_conf_value\<close> and the module-level code that reads \<open>conf.ini\<close>,
  resolves three values and writes the file back. Exceptions are values of a sum type,
  the mutable parser object and the outside world (processes, files, console) are
  passed and returned explicitly. A call that waits for a process has a result of type
  \<open>(error + 'a) option\<close>: \<open>Some (Inr v)\<close> is a return with the value \<open>v\<close>, \<open>Some (Inl x)\<close>
  the exception \<open>x\<close>, and \<open>None\<close> a call that never returns.
\<close>

section \<open>Python values\<close>

text \<open>
  A Python \<open>str\<close> is a sequence of Unicode code points, a \<open>bytes\<close> object a sequence
  of octets. The values that flow through the script are \<open>None\<close>, \<open>str\<close> and
  \<open>bytes\<close>.
\<close>

type_synonym pystr = "nat list"
type_synonym bytes = "8 word list"

definition str :: "string \<Rightarrow> pystr" where
  "str s = map of_char s"

datatype pyval = PNone | PStr pystr | PBytes bytes

text \<open>The exceptions the script and the library calls it makes can raise.\<close>

datatype error =
    FileNotFoundError
  | KeyError
  | TypeError
  | AttributeError
  | UnicodeDecodeError
  | UnicodeEncodeError
  | ValueError
  | NoSectionError
  | NoOptionError
  | InterpolationError
  | ParsingError
  | IndexError
  | OSError

text \<open>Truth value of a Python object in a condition.\<close>

fun truthy :: "pyval \<Rightarrow> bool" where
  "truthy PNone = False"
| "truthy (PStr s) = (s \<noteq> [])"
| "truthy (PBytes b) = (b \<noteq> [])"

text \<open>\<open>a + b\<close> with \<open>a\<close> a \<open>str\<close>: a \<open>TypeError\<close> unless \<open>b\<close> is a \<open>str\<close> too.\<close>

fun str_add :: "pystr \<Rightarrow> pyval \<Rightarrow> error + pystr" where
  "str_add a (PStr b) = Inr (a @ b)"
| "str_add a PNone = Inl TypeError"
| "str_add a (PBytes b) = Inl TypeError"

text \<open>\<open>sep.join(xs)\<close>\<close>

fun join :: "pystr \<Rightarrow> pystr list \<Rightarrow> pystr" where
  "join sep [] = []"
| "join sep [x] = x"
| "join sep (x # y # ys) = x @ sep @ join sep (y # ys)"

subsection \<open>\<open>bytes.decode('utf-8')\<close>\<close>

text \<open>
  Strict UTF-8: shortest form only, no surrogates, nothing above U+10FFFF. \<open>None\<close>
  stands for the \<open>UnicodeDecodeError\<close>.
\<close>

definition is_cont :: "8 word \<Rightarrow> bool" where
  "is_cont b = (0x80 \<le> unat b \<and> unat b \<le> 0xBF)"

definition cont_bits :: "8 word \<Rightarrow> nat" where
  "cont_bits b = unat b - 0x80"

definition second_ok :: "nat \<Rightarrow> 8 word \<Rightarrow> bool" where
  "second_ok lead b =
     ((if lead = 0xE0 then 0xA0 else if lead = 0xF0 then 0x90 else 0x80) \<le> unat b \<and>
      unat b \<le> (if lead = 0xED then 0x9F else if lead = 0xF4 then 0x8F else 0xBF))"

fun utf8_decode :: "bytes \<Rightarrow> pystr option" where
  "utf8_decode [] = Some []"
| "utf8_decode (b # bs) =
     (let n = unat b in
      if n < 0x80 then map_option (Cons n) (utf8_decode bs)
      else if 0xC2 \<le> n \<and> n \<le> 0xDF then
        (case bs of
           c1 # r \<Rightarrow>
             if is_cont c1
             then map_option (Cons ((n - 0xC0) * 64 + cont_bits c1)) (utf8_decode r)
             else None
         | _ \<Rightarrow> None)
      else if 0xE0 \<le> n \<and> n \<le> 0xEF then
        (case bs of
           c1 # c2 # r \<Rightarrow>
             if second_ok n c1 \<and> is_cont c2
             then map_option
                    (Cons ((n - 0xE0) * 4096 + cont_bits c1 * 64 + cont_bits c2))
                    (utf8_decode r)
             else None
         | _ \<Rightarrow> None)
      else if 0xF0 \<le> n \<and> n \<le> 0xF4 then
        (case bs of
           c1 # c2 # c3 # r \<Rightarrow>
             if second_ok n c1 \<and> is_cont c2 \<and> is_cont c3
             then map_option
                    (Cons ((n - 0xF0) * 262144 + cont_bits c1 * 4096
                           + cont_bits c2 * 64 + cont_bits c3))
                    (utf8_decode r)
             else None
         | _ \<Rightarrow> None)
      else None)"

subsection \<open>\<open>str.rstrip()\<close>\<close>

text \<open>
  Without an argument \<open>rstrip\<close> removes every trailing character for which
  \<open>str.isspace\<close> holds: the ASCII controls 9 to 13 and 28 to 31, the space, and the
  Unicode separators.
\<close>

definition isspace :: "nat \<Rightarrow> bool" where
  "isspace c =
     ((9 \<le> c \<and> c \<le> 13) \<or> (28 \<le> c \<and> c \<le> 32) \<or> c = 0x85 \<or> c = 0xA0 \<or> c = 0x1680
      \<or> (0x2000 \<le> c \<and> c \<le> 0x200A) \<or> c = 0x2028 \<or> c = 0x2029 \<or> c = 0x202F
      \<or> c = 0x205F \<or> c = 0x3000)"

definition rstrip :: "pystr \<Rightarrow> pystr" where
  "rstrip s = rev (dropWhile isspace (rev s))"

section \<open>The environment\<close>

text \<open>
  What the operating system and the \<open>configparser\<close> library contribute is a parameter of
  the model, so every theorem holds whatever they do:
  \<^item> \<open>launch_error args\<close> is the exception \<open>subprocess.Popen\<close> raises for the argument
    list \<open>args\<close> (no such executable, empty argument list, ...), \<open>None\<close> if the process
    starts;
  \<^item> \<open>behave args input\<close> is what a started process does, given the bytes available on
    its standard input: the bytes it writes to its standard output and standard error,
    and its exit status, \<open>None\<close> for a process that never terminates. The concurrent
    execution of the stages is abstracted to this function of the input;
  \<^item> \<open>inherited_stdin\<close> is the content of the script's own standard input, which a
    process started with \<open>stdin=None\<close> inherits;
  \<^item> \<open>print_error line\<close> is the exception \<open>print(line)\<close> raises (\<open>UnicodeEncodeError\<close> for
    a text the codec of the console refuses, ...), \<open>None\<close> if the line is printed;
  \<^item> \<open>lower\<close> is \<open>str.lower\<close>, which \<open>ConfigParser.optionxform\<close> applies to every key;
  \<^item> \<open>expand\<close> is the interpolation \<open>ConfigParser.get\<close> applies to a value that
    contains a percent sign;
  \<^item> \<open>parse_ini\<close> and \<open>write_ini\<close> are the INI reader (with \<open>allow_no_value=True\<close>) and
    writer of \<open>ConfigParser\<close>.
\<close>

record config =
  defaults :: "pystr \<rightharpoonup> pyval"
  sections :: "pystr \<rightharpoonup> (pystr \<rightharpoonup> pyval)"

record env =
  launch_error :: "pystr list \<Rightarrow> error option"
  behave :: "pystr list \<Rightarrow> bytes \<Rightarrow> bytes \<times> bytes \<times> int option"
  inherited_stdin :: bytes
  print_error :: "pystr \<Rightarrow> error option"
  lower :: "pystr \<Rightarrow> pystr"
  expand :: "(pystr \<rightharpoonup> pyval) \<Rightarrow> pystr \<Rightarrow> error + pystr"
  parse_ini :: "pystr \<Rightarrow> error + config"
  write_ini :: "config \<Rightarrow> pystr"

section \<open>Processes\<close>

text \<open>
  The \<open>stdin\<close>, \<open>stdout\<close> and \<open>stderr\<close> arguments of \<open>Popen\<close>: \<open>None\<close> (no redirection: the
  stream of the script is inherited), \<open>subprocess.PIPE\<close>, \<open>subprocess.DEVNULL\<close>, or the
  file object at the reading end of the standard-output pipe of an earlier process,
  named by its position in the list of processes started so far.
\<close>

datatype redirect = NoRedirect | PIPE | DEVNULL | ReadEnd nat

text \<open>
  A process object. Beside the arguments of \<open>Popen\<close> it records what the process does:
  what it writes to its two output streams, and in \<open>returncode\<close> its exit status, \<open>None\<close>
  for a process that never terminates.
\<close>

record process =
  proc_id :: nat
  argv :: "pystr list"
  p_stdin :: redirect
  p_stdout :: redirect
  p_stderr :: redirect
  out_stream :: bytes
  err_stream :: bytes
  returncode :: "int option"

text \<open>
  The state the script acts on: the processes it has started, the files it can see (path
  to text content) and the lines it has printed.
\<close>

record world =
  spawned :: "process list"
  files :: "pystr \<rightharpoonup> pystr"
  console :: "pystr list"

text \<open>\<open>print(line)\<close>: the line is on the console, or the call raises.\<close>

definition print :: "env \<Rightarrow> world \<Rightarrow> pystr \<Rightarrow> error + world" where
  "print e w line =
     (case print_error e line of
        Some x \<Rightarrow> Inl x
      | None \<Rightarrow> Inr (w\<lparr>console := console w @ [line]\<rparr>))"

text \<open>The attribute \<open>p.stdout\<close>: a file object if the stream is a pipe, else \<open>None\<close>.\<close>

definition stdout_of :: "process \<Rightarrow> redirect" where
  "stdout_of p = (if p_stdout p = PIPE then ReadEnd (proc_id p) else NoRedirect)"

text \<open>
  The bytes available on the standard input of a new process: what the earlier process
  writes to the pipe, nothing for \<open>DEVNULL\<close> and for a fresh pipe nobody writes to, the
  standard input of the script when there is no redirection.
\<close>

fun input_of :: "env \<Rightarrow> world \<Rightarrow> redirect \<Rightarrow> bytes" where
  "input_of e w (ReadEnd i) =
     (if i < length (spawned w) then out_stream (spawned w ! i) else [])"
| "input_of e w DEVNULL = []"
| "input_of e w PIPE = []"
| "input_of e w NoRedirect = inherited_stdin e"

definition Popen ::
  "env \<Rightarrow> world \<Rightarrow> pystr list \<Rightarrow> redirect \<Rightarrow> redirect \<Rightarrow> redirect
     \<Rightarrow> (error + process) \<times> world" where
  "Popen e w args stdin stdout stderr =
     (case launch_error e args of
        Some err \<Rightarrow> (Inl err, w)
      | None \<Rightarrow>
          (case behave e args (input_of e w stdin) of
             (out, err, code) \<Rightarrow>
               (let p = \<lparr>proc_id = length (spawned w), argv = args, p_stdin = stdin,
                         p_stdout = stdout, p_stderr = stderr, out_stream = out,
                         err_stream = err, returncode = code\<rparr>
                in (Inr p, w\<lparr>spawned := spawned w @ [p]\<rparr>))))"

text \<open>
  \<open>p.communicate()\<close> waits, without a timeout, until the process has terminated: for a
  process that never terminates the call does not return. Otherwise it returns the
  content of each stream that is a pipe, \<open>None\<close> for a stream that is not; the third
  component is the exit status, which \<open>p.returncode\<close> holds from then on.
\<close>

definition communicate :: "process \<Rightarrow> (pyval \<times> pyval \<times> int) option" where
  "communicate p =
     (case returncode p of
        None \<Rightarrow> None
      | Some code \<Rightarrow>
          Some (if p_stdout p = PIPE then PBytes (out_stream p) else PNone,
                if p_stderr p = PIPE then PBytes (err_stream p) else PNone,
                code))"

section \<open>The pipeline runner\<close>

definition DEBUG :: bool where
  "DEBUG = True"

definition CONF_FILENAME :: pystr where
  "CONF_FILENAME = str ''conf.ini''"

record results =
  r_stdout :: pyval
  r_stderr :: pyval
  r_code :: int

text \<open>
  The loop over the commands: \<open>old\<close> is \<open>old_process\<close>. A launch that raises ends the
  loop; the processes already started stay started.
\<close>

fun spawn_all ::
  "env \<Rightarrow> world \<Rightarrow> process option \<Rightarrow> pystr list list \<Rightarrow> (error + process option) \<times> world"
  where
  "spawn_all e w old [] = (Inr old, w)"
| "spawn_all e w old (process_args # rest) =
     (case Popen e w process_args
             (case old of None \<Rightarrow> NoRedirect | Some p \<Rightarrow> stdout_of p) PIPE DEVNULL of
        (Inl err, w') \<Rightarrow> (Inl err, w')
      | (Inr new_process, w') \<Rightarrow> spawn_all e w' (Some new_process) rest)"

text \<open>
  The body of the loop over the two streams: a stream that is not empty is decoded and
  stripped, any other is left as it is. Only \<open>bytes\<close> has a \<open>decode\<close> method.
\<close>

fun finish_stream :: "pyval \<Rightarrow> error + pyval" where
  "finish_stream (PBytes b) =
     (if truthy (PBytes b)
      then (case utf8_decode b of
              None \<Rightarrow> Inl UnicodeDecodeError
            | Some s \<Rightarrow> Inr (PStr (rstrip s)))
      else Inr (PBytes b))"
| "finish_stream PNone = Inr PNone"
| "finish_stream (PStr s) = (if truthy (PStr s) then Inl AttributeError else Inr (PStr s))"

definition debug_line :: "pystr list list \<Rightarrow> pystr" where
  "debug_line args =
     str ''Running command `'' @ join (str '' | '') (map (join (str '' '')) args) @ str ''`''"

text \<open>
  \<open>__run_pipeline(*args)\<close>. The debugging line is printed before the first process is
  started.
\<close>

definition run_pipeline ::
  "env \<Rightarrow> world \<Rightarrow> pystr list list \<Rightarrow> (error + results) option \<times> world" where
  "run_pipeline e w args =
     (case (if DEBUG then print e w (debug_line args) else Inr w) of
        Inl x \<Rightarrow> (Some (Inl x), w)
      | Inr w0 \<Rightarrow>
          (case spawn_all e w0 None args of
             (Inl err, w1) \<Rightarrow> (Some (Inl err), w1)
           | (Inr None, w1) \<Rightarrow> (Some (Inl AttributeError), w1)
           | (Inr (Some old_process), w1) \<Rightarrow>
               (case communicate old_process of
                  None \<Rightarrow> (None, w1)
                | Some (out, err, code) \<Rightarrow>
                    (case finish_stream out of
                       Inl x \<Rightarrow> (Some (Inl x), w1)
                     | Inr so \<Rightarrow>
                         (case finish_stream err of
                            Inl x \<Rightarrow> (Some (Inl x), w1)
                          | Inr se \<Rightarrow>
                              (Some (Inr \<lparr>r_stdout = so, r_stderr = se, r_code = code\<rparr>),
                               w1))))))"

section \<open>The configuration store\<close>

text \<open>
  The part of \<open>configparser.ConfigParser\<close> the script calls, for a parser created with
  \<open>allow_no_value=True\<close> and the default (basic) interpolation. A valueless entry
  holds \<open>None\<close>. The field \<open>defaults\<close> of a \<open>config\<close> is the section \<open>DEFAULT\<close>, the
  field \<open>sections\<close> holds the others.
\<close>

definition default_section :: pystr where
  "default_section = str ''DEFAULT''"

definition has_section :: "config \<Rightarrow> pystr \<Rightarrow> bool" where
  "has_section conf s = (sections conf s \<noteq> None)"

text \<open>\<open>conf[s]\<close> raises \<open>KeyError\<close> for a section that is neither there nor the default one.\<close>

definition getitem_ok :: "config \<Rightarrow> pystr \<Rightarrow> bool" where
  "getitem_ok conf s = (s = default_section \<or> has_section conf s)"

subsection \<open>Validation of a value that is set\<close>

text \<open>
  \<open>BasicInterpolation.before_set\<close> deletes every \<open>%%\<close> and then every match of the
  pattern \<open>%\(([^)]+)\)s\<close> from a copy of the value, and raises \<open>ValueError\<close> if a percent
  sign is left. Code points: 37 is the percent sign, 40 and 41 the parentheses, 115 the
  letter s.
\<close>

fun strip_escapes :: "pystr \<Rightarrow> pystr" where
  "strip_escapes (a # b # r) =
     (if a = 37 \<and> b = 37 then strip_escapes r else a # strip_escapes (b # r))"
| "strip_escapes r = r"

text \<open>A match of the pattern at the head of the string: what follows the match.\<close>

definition keycre_match :: "pystr \<Rightarrow> pystr option" where
  "keycre_match s =
     (case s of
        a # b # r \<Rightarrow>
          if a = 37 \<and> b = 40 \<and> takeWhile (\<lambda>c. c \<noteq> 41) r \<noteq> []
          then (case dropWhile (\<lambda>c. c \<noteq> 41) r of
                  c # d # u \<Rightarrow> if d = 115 then Some u else None
                | _ \<Rightarrow> None)
          else None
      | _ \<Rightarrow> None)"

function strip_refs :: "pystr \<Rightarrow> pystr" where
  "strip_refs [] = []"
| "strip_refs (a # r) =
     (case keycre_match (a # r) of
        Some u \<Rightarrow> strip_refs u
      | None \<Rightarrow> a # strip_refs r)"
  by pat_completeness auto
termination
proof (relation "measure length")
  fix a :: nat and r u :: pystr
  assume m: "keycre_match (a # r) = Some u"
  then obtain b t where r: "r = b # t"
    by (cases r) (auto simp: keycre_match_def)
  from m r obtain c d where "dropWhile (\<lambda>c. c \<noteq> 41) t = c # d # u"
    by (auto simp: keycre_match_def split: list.splits if_splits)
  then have "length u < length (dropWhile (\<lambda>c. c \<noteq> 41) t)"
    by simp
  also have "\<dots> \<le> length t"
    by (rule length_dropWhile_le)
  finally show "(u, a # r) \<in> measure length"
    using r by simp
qed simp_all

definition before_set_ok :: "pystr \<Rightarrow> bool" where
  "before_set_ok v = (37 \<notin> set (strip_refs (strip_escapes v)))"

subsection \<open>\<open>conf.get(section, option)\<close>\<close>

text \<open>
  The option is looked up, lower-cased, in the section and then in the defaults. A
  value that is \<open>None\<close> is returned as it is; any other goes through the interpolation,
  which returns a string without a percent sign unchanged (and the empty \<open>bytes\<close> as the
  empty string).
\<close>

fun before_get :: "env \<Rightarrow> (pystr \<rightharpoonup> pyval) \<Rightarrow> pyval \<Rightarrow> error + pyval" where
  "before_get e d (PStr s) =
     (if 37 \<in> set s
      then (case expand e d s of Inl x \<Rightarrow> Inl x | Inr t \<Rightarrow> Inr (PStr t))
      else Inr (PStr s))"
| "before_get e d (PBytes b) = (if b = [] then Inr (PStr []) else Inl TypeError)"
| "before_get e d PNone = Inr PNone"

definition conf_get :: "env \<Rightarrow> config \<Rightarrow> pystr \<Rightarrow> pystr \<Rightarrow> error + pyval" where
  "conf_get e conf section option =
     (case (case sections conf section of
              Some sectiondict \<Rightarrow> Inr sectiondict
            | None \<Rightarrow> if section \<noteq> default_section then Inl NoSectionError
                      else Inr Map.empty) of
        Inl x \<Rightarrow> Inl x
      | Inr sectiondict \<Rightarrow>
          (let d = defaults conf ++ sectiondict in
           case d (lower e option) of
             None \<Rightarrow> Inl NoOptionError
           | Some v \<Rightarrow> if v = PNone then Inr v else before_get e d v))"

subsection \<open>\<open>conf.set(section, option, value)\<close>\<close>

text \<open>
  With \<open>allow_no_value=True\<close> only a value that is true in a condition is checked: it
  must be a \<open>str\<close> (\<open>TypeError\<close>) and pass \<open>before_set\<close> (\<open>ValueError\<close>). The entry is
  stored under the lower-cased option.
\<close>

fun set_check :: "pyval \<Rightarrow> error option" where
  "set_check PNone = None"
| "set_check (PBytes b) = (if b \<noteq> [] then Some TypeError else None)"
| "set_check (PStr s) = (if s \<noteq> [] \<and> \<not> before_set_ok s then Some ValueError else None)"

definition conf_set :: "env \<Rightarrow> config \<Rightarrow> pystr \<Rightarrow> pystr \<Rightarrow> pyval \<Rightarrow> error + config" where
  "conf_set e conf section option v =
     (case set_check v of
        Some x \<Rightarrow> Inl x
      | None \<Rightarrow>
          if section = [] \<or> section = default_section
          then Inr (conf\<lparr>defaults := (defaults conf)(lower e option \<mapsto> v)\<rparr>)
          else (case sections conf section of
                  None \<Rightarrow> Inl NoSectionError
                | Some sectdict \<Rightarrow>
                    Inr (conf\<lparr>sections :=
                               (sections conf)(section \<mapsto> sectdict(lower e option \<mapsto> v))\<rparr>)))"

section \<open>The value resolver\<close>

text \<open>
  \<open>__find_conf_value(conf, key, pipeline_args, default)\<close>. The parser object is mutable;
  the model returns it beside the result; \<open>dflt\<close> is the parameter \<open>default\<close>.
  \<open>print_concat e w a v\<close> is \<open>print(a + v)\<close>.
\<close>

definition print_concat :: "env \<Rightarrow> world \<Rightarrow> pystr \<Rightarrow> pyval \<Rightarrow> error + world" where
  "print_concat e w a v = (case str_add a v of Inl x \<Rightarrow> Inl x | Inr line \<Rightarrow> print e w line)"

definition find_conf_value ::
  "env \<Rightarrow> world \<Rightarrow> config \<Rightarrow> pystr \<Rightarrow> pystr list list \<Rightarrow> pystr
     \<Rightarrow> (error + pyval) option \<times> config \<times> world" where
  "find_conf_value e w conf key pipeline_args dflt =
     (case (if DEBUG then print e w (str ''Finding conf value of '' @ key) else Inr w) of
        Inl x \<Rightarrow> (Some (Inl x), conf, w)
      | Inr w0 \<Rightarrow>
     (case run_pipeline e w0 pipeline_args of
        (None, w1) \<Rightarrow> (None, conf, w1)
      | (Some (Inl x), w1) \<Rightarrow> (Some (Inl x), conf, w1)
      | (Some (Inr pipeline_results), w1) \<Rightarrow>
          (case
             (if r_code pipeline_results = 0
              then (let v = r_stdout pipeline_results in
                    if DEBUG
                    then (case print_concat e w1
                                 (str ''Got value of '' @ key @ str '' programmatically: '') v of
                            Inl x \<Rightarrow> Inl x
                          | Inr w2 \<Rightarrow> Inr (v, w2))
                    else Inr (v, w1))
              else (case conf_get e conf (str ''main'') key of
                      Inl x \<Rightarrow> Inl x
                    | Inr v \<Rightarrow>
                        if truthy v \<and> DEBUG
                        then (case print_concat e w1
                                     (str ''Got value of '' @ key @ str '' from ''
                                      @ CONF_FILENAME @ str '': '') v of
                                Inl x \<Rightarrow> Inl x
                              | Inr w2 \<Rightarrow> Inr (v, w2))
                        else (let v' = PStr dflt in
                              if DEBUG
                              then (case print_concat e w1
                                           (str ''Using default value for '' @ key @ str '': '')
                                           v' of
                                      Inl x \<Rightarrow> Inl x
                                    | Inr w2 \<Rightarrow> Inr (v', w2))
                              else Inr (v', w1))))
           of
             Inl x \<Rightarrow> (Some (Inl x), conf, w1)
           | Inr (v, w2) \<Rightarrow>
               (case conf_set e conf (str ''main'') key v of
                  Inl x \<Rightarrow> (Some (Inl x), conf, w2)
                | Inr conf' \<Rightarrow> (Some (Inr v), conf', w2)))))"

section \<open>Calling the resolver\<close>

text \<open>
  How Python binds the arguments of a call to the parameters of a function without
  default values: the positional arguments fill the first parameters; a keyword
  argument must name a parameter that has no value yet; in the end every parameter must
  have a value. Each violation is a \<open>TypeError\<close>, raised before the body runs.
\<close>

datatype pyarg = AConf config | AStr pystr | APipeline "pystr list list"

fun bind_keywords ::
  "string list \<Rightarrow> (string \<rightharpoonup> pyarg) \<Rightarrow> (string \<times> pyarg) list \<Rightarrow> error + (string \<rightharpoonup> pyarg)"
  where
  "bind_keywords params b [] = Inr b"
| "bind_keywords params b ((name, v) # kw) =
     (if name \<notin> set params then Inl TypeError
      else if b name \<noteq> None then Inl TypeError
      else bind_keywords params (b(name \<mapsto> v)) kw)"

definition bind_args ::
  "string list \<Rightarrow> pyarg list \<Rightarrow> (string \<times> pyarg) list \<Rightarrow> error + (string \<rightharpoonup> pyarg)"
  where
  "bind_args params pos kw =
     (if length params < length pos then Inl TypeError
      else (case bind_keywords params (map_of (zip params pos)) kw of
              Inl x \<Rightarrow> Inl x
            | Inr b \<Rightarrow> if list_all (\<lambda>p. b p \<noteq> None) params then Inr b else Inl TypeError))"

text \<open>The parameter list of \<open>def __find_conf_value(conf, key, pipeline_args, default)\<close>.\<close>

definition find_conf_value_params :: "string list" where
  "find_conf_value_params = [''conf'', ''key'', ''pipeline_args'', ''default'']"

text \<open>
  A call of \<open>__find_conf_value\<close> with the parser as it is before the call. The script
  only passes a parser, strings and pipelines where the function expects them; a value
  of another kind is answered with \<open>TypeError\<close> here.
\<close>

definition call_find_conf_value ::
  "env \<Rightarrow> world \<Rightarrow> config \<Rightarrow> pyarg list \<Rightarrow> (string \<times> pyarg) list
     \<Rightarrow> (error + pyval) option \<times> config \<times> world" where
  "call_find_conf_value e w conf pos kw =
     (case bind_args find_conf_value_params pos kw of
        Inl x \<Rightarrow> (Some (Inl x), conf, w)
      | Inr b \<Rightarrow>
          (case (b ''conf'', b ''key'', b ''pipeline_args'', b ''default'') of
             (Some (AConf c), Some (AStr key), Some (APipeline pipeline_args),
              Some (AStr dflt)) \<Rightarrow>
               find_conf_value e w c key pipeline_args dflt
           | _ \<Rightarrow> (Some (Inl TypeError), conf, w)))"

section \<open>The script\<close>

text \<open>The three pipelines; 92 is the backslash, 34 the double quote.\<close>

definition apache_conf_pipeline :: "pystr list list" where
  "apache_conf_pipeline =
     [[str ''httpd'', str ''-t'', str ''-D'', str ''DUMP_INCLUDES''],
      [str ''grep'', str ''^'' @ [92] @ str ''s*('' @ [92] @ str ''*)''],
      [str ''awk'', str ''{print $2}'']]"

definition ood_portal_conf_pipeline :: "pystr list list" where
  "ood_portal_conf_pipeline =
     [[str ''httpd'', str ''-t'', str ''-D'', str ''DUMP_INCLUDES''],
      [str ''grep'', str ''ood-portal.conf''],
      [str ''awk'', str ''{print $2}'']]"

definition access_log_pipeline :: "pystr \<Rightarrow> pystr list list" where
  "access_log_pipeline ood_portal_conf_path =
     [[str ''grep'',
       str ''^'' @ [92] @ str ''s*[^#]'' @ [92] @ str ''s*'' @ [92] @ str ''<CustomLog''
         @ [92] @ str ''>'',
       ood_portal_conf_path],
      [str ''grep'', str ''_access_''],
      [str ''awk'', str ''{print $2}''],
      [str ''cut'', str ''-d'', [34], str ''-f'', str ''2'']]"

definition comment_header :: pystr where
  "comment_header =
     str ''# This is a configuration file used by post_ood_logs_to_access_mms.py.'' @ [10]
     @ str ''# The values will be written/overwritten in-place in this file when the script''
     @ [10]
     @ str ''# runs and then used in future runs of the script if the script is otherwise''
     @ [10]
     @ str ''# unable to determine the log metadata values by parsing the Apache'' @ [10]
     @ str ''# configuration.'' @ [10]"

text \<open>Opening a file with mode \<open>w\<close> or \<open>a\<close> and writing one text to it.\<close>

definition write_file :: "world \<Rightarrow> pystr \<Rightarrow> pystr \<Rightarrow> world" where
  "write_file w path text = w\<lparr>files := (files w)(path \<mapsto> text)\<rparr>"

definition append_file :: "world \<Rightarrow> pystr \<Rightarrow> pystr \<Rightarrow> world" where
  "append_file w path text =
     w\<lparr>files := (files w)(path \<mapsto> (case files w path of None \<Rightarrow> text | Some old \<Rightarrow> old @ text))\<rparr>"

text \<open>
  The module-level code. \<open>conf.read\<close> skips a file it cannot open and returns the list
  of the files it has read, here empty or not; an error of the parser is raised as it
  is. \<open>Some (Inr ())\<close> is the normal end of the script (exit status 0), \<open>Some (Inl x)\<close> the
  uncaught exception \<open>x\<close>, \<open>None\<close> a script that never ends. The third pipeline has the
  resolved portal path as an argument of its first command; a value that is not a \<open>str\<close>
  there makes the \<open>join\<close> of the debugging line raise \<open>TypeError\<close>.
\<close>

definition script :: "env \<Rightarrow> world \<Rightarrow> (error + unit) option \<times> world" where
  "script e w =
     (case files w CONF_FILENAME of
        None \<Rightarrow> (Some (Inl FileNotFoundError), w)
      | Some text \<Rightarrow>
          (case parse_ini e text of
             Inl x \<Rightarrow> (Some (Inl x), w)
           | Inr conf \<Rightarrow>
               if \<not> (getitem_ok conf (str ''logs'') \<and> getitem_ok conf (str ''runs''))
               then (Some (Inl KeyError), w)
               else
                 (case call_find_conf_value e w conf [AConf conf]
                         [(''key'', AStr (str ''apache_conf_path'')),
                          (''command_args'', APipeline apache_conf_pipeline),
                          (''default'', AStr (str ''/etc/httpd/conf/httpd.conf''))] of
                    (None, conf1, w1) \<Rightarrow> (None, w1)
                  | (Some (Inl x), conf1, w1) \<Rightarrow> (Some (Inl x), w1)
                  | (Some (Inr apache_conf_path), conf1, w1) \<Rightarrow>
                 (case call_find_conf_value e w1 conf1 [AConf conf1]
                         [(''key'', AStr (str ''ood_portal_conf_path'')),
                          (''command_args'', APipeline ood_portal_conf_pipeline),
                          (''default'', AStr (str ''/etc/httpd/conf.d/ood-portal.conf''))] of
                    (None, conf2, w2) \<Rightarrow> (None, w2)
                  | (Some (Inl x), conf2, w2) \<Rightarrow> (Some (Inl x), w2)
                  | (Some (Inr ood_portal_conf_path), conf2, w2) \<Rightarrow>
                 (case ood_portal_conf_path of
                    PNone \<Rightarrow> (Some (Inl TypeError), w2)
                  | PBytes b \<Rightarrow> (Some (Inl TypeError), w2)
                  | PStr path \<Rightarrow>
                 (case call_find_conf_value e w2 conf2 [AConf conf2]
                         [(''key'', AStr (str ''access_log_filename'')),
                          (''command_args'', APipeline (access_log_pipeline path)),
                          (''default'', AStr (str ''/etc/httpd/conf.d/ood-portal.conf''))] of
                    (None, conf3, w3) \<Rightarrow> (None, w3)
                  | (Some (Inl x), conf3, w3) \<Rightarrow> (Some (Inl x), w3)
                  | (Some (Inr access_log_filename), conf3, w3) \<Rightarrow>
                      (Some (Inr ()),
                       append_file (write_file w3 CONF_FILENAME comment_header)
                         CONF_FILENAME (write_ini e conf3))))))))"

section \<open>What a pipeline starts\<close>

text \<open>
  A closed form of the loop, used to reason about it. \<open>started e n prev a\<close> is the process
  object the \<open>n\<close>-th call of \<open>Popen\<close> returns for the command \<open>a\<close> when \<open>prev\<close> is the
  process started before it; \<open>stages\<close> lists the processes a pipeline starts, up to the
  first command that does not launch; \<open>outcome\<close> is the value of \<open>old_process\<close> after the
  loop, or the exception of the launch that failed. \<open>linked w old\<close> says that \<open>old\<close> is a
  process of the world \<open>w\<close> whose standard output is a pipe. \<open>surface p\<close> is what the
  runner makes of a final process \<open>p\<close> whose standard error went to \<open>DEVNULL\<close>.
\<close>

definition started :: "env \<Rightarrow> nat \<Rightarrow> process option \<Rightarrow> pystr list \<Rightarrow> process" where
  "started e n prev a =
     \<lparr>proc_id = n, argv = a,
      p_stdin = (case prev of None \<Rightarrow> NoRedirect | Some q \<Rightarrow> ReadEnd (proc_id q)),
      p_stdout = PIPE, p_stderr = DEVNULL,
      out_stream =
        fst (behave e a (case prev of None \<Rightarrow> inherited_stdin e | Some q \<Rightarrow> out_stream q)),
      err_stream =
        fst (snd (behave e a (case prev of None \<Rightarrow> inherited_stdin e | Some q \<Rightarrow> out_stream q))),
      returncode =
        snd (snd (behave e a (case prev of None \<Rightarrow> inherited_stdin e | Some q \<Rightarrow> out_stream q)))\<rparr>"

fun stages :: "env \<Rightarrow> nat \<Rightarrow> process option \<Rightarrow> pystr list list \<Rightarrow> process list" where
  "stages e n prev [] = []"
| "stages e n prev (a # args) =
     (if launch_error e a = None
      then started e n prev a # stages e (Suc n) (Some (started e n prev a)) args
      else [])"

fun outcome :: "env \<Rightarrow> nat \<Rightarrow> process option \<Rightarrow> pystr list list \<Rightarrow> error + process option" where
  "outcome e n prev [] = Inr prev"
| "outcome e n prev (a # args) =
     (case launch_error e a of
        Some x \<Rightarrow> Inl x
      | None \<Rightarrow> outcome e (Suc n) (Some (started e n prev a)) args)"

definition linked :: "world \<Rightarrow> process option \<Rightarrow> bool" where
  "linked w old =
     (case old of
        None \<Rightarrow> True
      | Some q \<Rightarrow> proc_id q < length (spawned w) \<and> spawned w ! proc_id q = q \<and> p_stdout q = PIPE)"

definition surface :: "process \<Rightarrow> (error + results) option" where
  "surface p =
     (case returncode p of
        None \<Rightarrow> None
      | Some code \<Rightarrow>
          (case finish_stream (PBytes (out_stream p)) of
             Inl x \<Rightarrow> Some (Inl x)
           | Inr so \<Rightarrow> Some (Inr \<lparr>r_stdout = so, r_stderr = PNone, r_code = code\<rparr>)))"

section \<open>An example host\<close>

text \<open>
  A concrete environment for the examples: a host with the programs \<open>echo\<close>, \<open>true\<close>,
  \<open>false\<close>, \<open>cat\<close>, \<open>ls\<close> (called on a path that does not exist), \<open>printf\<close> (called with
  the octal escape of the byte 255) and \<open>sleep\<close> (which never terminates when called with
  \<open>infinity\<close>), and without \<open>httpd\<close>. The script has an empty standard input, and the
  console has the ASCII codec: \<open>print\<close> raises \<open>UnicodeEncodeError\<close> for a line with any
  other character. Keys are ASCII. The parser of the host knows the two well-formed
  configuration files of the examples, \<open>cached_ini\<close> and \<open>bare_ini\<close>, and answers
  \<open>ParsingError\<close> otherwise, as \<open>configparser\<close> does for \<open>headerless_ini\<close>, an option line
  before any section header. No value of the examples has a percent sign, and no
  example reaches the writer. \<open>typing_host\<close> is the host with the line \<open>typed\<close> waiting on
  the standard input of the script. On \<open>failing_host\<close> every command starts and exits
  with status 1 without output. \<open>world_with content\<close> is a fresh world in which
  \<open>conf.ini\<close> has the given content, or does not exist.
\<close>

definition ascii_lower :: "pystr \<Rightarrow> pystr" where
  "ascii_lower s = map (\<lambda>c. if 65 \<le> c \<and> c \<le> 90 then c + 32 else c) s"

definition encode_ascii :: "pystr \<Rightarrow> bytes" where
  "encode_ascii s = map of_nat s"

definition ascii_console :: "pystr \<Rightarrow> error option" where
  "ascii_console line = (if list_all (\<lambda>c. c < 128) line then None else Some UnicodeEncodeError)"

definition host_launch :: "pystr list \<Rightarrow> error option" where
  "host_launch args =
     (case args of
        [] \<Rightarrow> Some IndexError
      | prog # rest \<Rightarrow>
          if prog \<in> set [str ''echo'', str ''true'', str ''false'', str ''cat'', str ''ls'',
                           str ''printf'', str ''sleep'']
          then None else Some FileNotFoundError)"

definition host_behave :: "pystr list \<Rightarrow> bytes \<Rightarrow> bytes \<times> bytes \<times> int option" where
  "host_behave args inp =
     (case args of
        [prog] \<Rightarrow>
          if prog = str ''false'' then ([], [], Some 1)
          else if prog = str ''cat'' then (inp, [], Some 0)
          else ([], [], Some 0)
      | [prog, arg] \<Rightarrow>
          if prog = str ''echo'' then (encode_ascii arg @ [10], [], Some 0)
          else if prog = str ''ls''
          then ([], encode_ascii (str ''ls: cannot access '' @ arg) @ [10], Some 2)
          else if prog = str ''printf'' \<and> arg = [92] @ str ''377'' then ([0xFF], [], Some 0)
          else if prog = str ''sleep'' \<and> arg = str ''infinity'' then ([], [], None)
          else ([], [], Some 0)
      | _ \<Rightarrow> ([], [], Some 0))"

definition cached_ini :: pystr where
  "cached_ini =
     str ''[main]'' @ [10]
     @ str ''apache_conf_path = /opt/httpd/httpd.conf'' @ [10]
     @ str ''ood_portal_conf_path = /opt/httpd/ood-portal.conf'' @ [10]
     @ str ''access_log_filename = ood_access.log'' @ [10] @ [10]
     @ str ''[logs]'' @ [10] @ [10]
     @ str ''[runs]'' @ [10] @ [10]"

definition cached_conf :: config where
  "cached_conf =
     \<lparr>defaults = Map.empty,
      sections =
        [str ''main'' \<mapsto>
           [str ''apache_conf_path'' \<mapsto> PStr (str ''/opt/httpd/httpd.conf''),
            str ''ood_portal_conf_path'' \<mapsto> PStr (str ''/opt/httpd/ood-portal.conf''),
            str ''access_log_filename'' \<mapsto> PStr (str ''ood_access.log'')],
         str ''logs'' \<mapsto> Map.empty,
         str ''runs'' \<mapsto> Map.empty]\<rparr>"

definition bare_ini :: pystr where
  "bare_ini = str ''[main]'' @ [10]"

definition bare_conf :: config where
  "bare_conf = \<lparr>defaults = Map.empty, sections = [str ''main'' \<mapsto> Map.empty]\<rparr>"

definition headerless_ini :: pystr where
  "headerless_ini = str ''apache_conf_path = /opt/httpd/httpd.conf'' @ [10]"

definition blank_conf :: config where
  "blank_conf =
     \<lparr>defaults = Map.empty,
      sections =
        [str ''main'' \<mapsto>
           [str ''apache_conf_path'' \<mapsto> PStr [],
            str ''ood_portal_conf_path'' \<mapsto> PNone]]\<rparr>"

definition host_parse :: "pystr \<Rightarrow> error + config" where
  "host_parse text =
     (if text = cached_ini then Inr cached_conf
      else if text = bare_ini then Inr bare_conf
      else Inl ParsingError)"

definition host :: env where
  "host = \<lparr>launch_error = host_launch, behave = host_behave, inherited_stdin = [],
            print_error = ascii_console, lower = ascii_lower,
            expand = (\<lambda>d s. Inl InterpolationError),
            parse_ini = host_parse, write_ini = (\<lambda>c. [])\<rparr>"

definition typing_host :: env where
  "typing_host = host\<lparr>inherited_stdin := encode_ascii (str ''typed'') @ [10]\<rparr>"

definition failing_host :: env where
  "failing_host =
     host\<lparr>launch_error := (\<lambda>args. None), behave := (\<lambda>args inp. ([], [], Some 1))\<rparr>"

definition world_with :: "pystr option \<Rightarrow> world" where
  "world_with content =
     \<lparr>spawned = [], files = (case content of None \<Rightarrow> Map.empty | Some t \<Rightarrow> [CONF_FILENAME \<mapsto> t]),
      console = []\<rparr>"

section \<open>The loop of the pipeline runner\<close>

lemma Popen_started:
  assumes "linked w old" "launch_error e a = None"
  shows "Popen e w a (case old of None \<Rightarrow> NoRedirect | Some p \<Rightarrow> stdout_of p) PIPE DEVNULL
         = (Inr (started e (length (spawned w)) old a),
            w\<lparr>spawned := spawned w @ [started e (length (spawned w)) old a]\<rparr>)"
  using assms
  by (cases old)
     (simp_all add: Popen_def started_def linked_def stdout_of_def Let_def split: prod.splits)

lemma Popen_refused:
  "launch_error e a = Some x \<Longrightarrow> Popen e w a i out err = (Inl x, w)"
  by (simp add: Popen_def)

lemma linked_step:
  "linked (w\<lparr>spawned := spawned w @ [started e (length (spawned w)) old a]\<rparr>)
     (Some (started e (length (spawned w)) old a))"
  by (simp add: linked_def started_def)

lemma spawn_all_eq:
  "linked w old \<Longrightarrow>
   spawn_all e w old args =
     (outcome e (length (spawned w)) old args,
      w\<lparr>spawned := spawned w @ stages e (length (spawned w)) old args\<rparr>)"
proof (induction args arbitrary: w old)
  case Nil
  then show ?case by simp
next
  case (Cons a args)
  show ?case
  proof (cases "launch_error e a")
    case None
    let ?p = "started e (length (spawned w)) old a"
    let ?w = "w\<lparr>spawned := spawned w @ [?p]\<rparr>"
    have "spawn_all e w old (a # args) = spawn_all e ?w (Some ?p) args"
      using Popen_started [OF Cons.prems None] by simp
    also have "\<dots> = (outcome e (length (spawned ?w)) (Some ?p) args,
        ?w\<lparr>spawned := spawned ?w @ stages e (length (spawned ?w)) (Some ?p) args\<rparr>)"
      by (rule Cons.IH) (rule linked_step)
    finally show ?thesis
      using None by simp
  next
    case (Some x)
    then show ?thesis
      by (simp add: Popen_refused)
  qed
qed

lemma outcome_Inr:
  "outcome e n prev args = Inr res \<Longrightarrow>
   length (stages e n prev args) = length args \<and>
   res = (if args = [] then prev else Some (last (stages e n prev args)))"
proof (induction args arbitrary: n prev)
  case Nil
  then show ?case by simp
next
  case (Cons a args)
  from Cons.prems have l: "launch_error e a = None"
    and o: "outcome e (Suc n) (Some (started e n prev a)) args = Inr res"
    by (auto split: option.splits)
  from Cons.IH [OF o] l show ?case
    by auto
qed

lemma outcome_Inl:
  "outcome e n prev args = Inl x \<Longrightarrow>
   length (stages e n prev args) < length args \<and>
   launch_error e (args ! length (stages e n prev args)) = Some x"
proof (induction args arbitrary: n prev)
  case Nil
  then show ?case by simp
next
  case (Cons a args)
  show ?case
  proof (cases "launch_error e a")
    case None
    with Cons.prems have "outcome e (Suc n) (Some (started e n prev a)) args = Inl x"
      by simp
    from Cons.IH [OF this] None show ?thesis
      by simp
  next
    case (Some y)
    with Cons.prems show ?thesis
      by simp
  qed
qed

lemma outcome_last:
  "outcome e n prev args = Inr (Some p) \<Longrightarrow> args \<noteq> [] \<Longrightarrow>
   length (stages e n prev args) = length args \<and> p = last (stages e n prev args)"
  by (drule outcome_Inr) simp


lemma stages_pipes:
  "p \<in> set (stages e n prev args) \<Longrightarrow> p_stdout p = PIPE \<and> p_stderr p = DEVNULL"
  by (induction args arbitrary: n prev) (auto simp: started_def split: if_splits)

lemma stages_argv:
  "map argv (stages e n prev args) = takeWhile (\<lambda>c. launch_error e c = None) args"
  by (induction args arbitrary: n prev) (auto simp: started_def)

lemma stages_length: "length (stages e n prev args) \<le> length args"
  by (induction args arbitrary: n prev) auto

lemma stages_nth:
  "i < length (stages e n prev args) \<Longrightarrow>
   stages e n prev args ! i =
     started e (n + i) (if i = 0 then prev else Some (stages e n prev args ! (i - 1))) (args ! i)"
proof (induction args arbitrary: n prev i)
  case Nil
  then show ?case by simp
next
  case (Cons a args)
  show ?case
  proof (cases i)
    case 0
    with Cons.prems show ?thesis by (simp split: if_splits)
  next
    case (Suc j)
    with Cons.prems have l: "launch_error e a = None"
      and j: "j < length (stages e (Suc n) (Some (started e n prev a)) args)"
      by (auto split: if_splits)
    show ?thesis
      using Cons.IH [OF j] l Suc by (cases j) simp_all
  qed
qed

text \<open>
  The runner in closed form. When the debugging line cannot be printed the call raises
  before any process is started.
\<close>

lemma run_pipeline_refused:
  "print_error e (debug_line args) = Some x \<Longrightarrow> run_pipeline e w args = (Some (Inl x), w)"
  by (simp add: run_pipeline_def DEBUG_def print_def)

lemma run_pipeline_eq:
  assumes "print_error e (debug_line args) = None"
  shows "run_pipeline e w args =
     ((case outcome e (length (spawned w)) None args of
         Inl x \<Rightarrow> Some (Inl x)
       | Inr None \<Rightarrow> Some (Inl AttributeError)
       | Inr (Some p) \<Rightarrow> surface p),
      w\<lparr>spawned := spawned w @ stages e (length (spawned w)) None args,
        console := console w @ [debug_line args]\<rparr>)"
proof -
  let ?n = "length (spawned w)"
  let ?w0 = "w\<lparr>console := console w @ [debug_line args]\<rparr>"
  have pr: "print e w (debug_line args) = Inr ?w0"
    using assms by (simp add: print_def)
  have "linked ?w0 None"
    by (simp add: linked_def)
  from spawn_all_eq [OF this]
  have sp: "spawn_all e ?w0 None args =
      (outcome e ?n None args,
       w\<lparr>spawned := spawned w @ stages e ?n None args,
         console := console w @ [debug_line args]\<rparr>)"
    by simp
  show ?thesis
  proof (cases "outcome e ?n None args")
    case (Inl x)
    then show ?thesis
      by (simp add: run_pipeline_def DEBUG_def pr sp)
  next
    case (Inr res)
    show ?thesis
    proof (cases res)
      case None
      with Inr show ?thesis
        by (simp add: run_pipeline_def DEBUG_def pr sp)
    next
      case (Some p)
      with Inr have ne: "args \<noteq> []" by auto
      from outcome_last [OF Inr [unfolded Some] ne]
      have "stages e ?n None args \<noteq> []" and "p = last (stages e ?n None args)"
        using ne by auto
      then have "p \<in> set (stages e ?n None args)"
        by simp
      then have "p_stdout p = PIPE" "p_stderr p = DEVNULL"
        by (simp_all add: stages_pipes)
      with Inr Some show ?thesis
        by (auto simp: run_pipeline_def DEBUG_def pr sp communicate_def surface_def
            split: sum.splits option.splits)
    qed
  qed
qed

lemma run_pipeline_fst:
  "length (spawned w') = length (spawned w) \<Longrightarrow>
   fst (run_pipeline e w' args) = fst (run_pipeline e w args)"
  by (cases "print_error e (debug_line args)")
     (simp_all add: run_pipeline_eq run_pipeline_refused)

lemma run_pipeline_returns:
  assumes "fst (run_pipeline e w args) = Some (Inr r)"
  shows "print_error e (debug_line args) = None \<and> args \<noteq> [] \<and>
         length (stages e (length (spawned w)) None args) = length args \<and>
         surface (last (stages e (length (spawned w)) None args)) = Some (Inr r)"
proof (cases "print_error e (debug_line args)")
  case (Some x)
  with assms show ?thesis
    by (simp add: run_pipeline_refused)
next
  case None
  note pr = this
  show ?thesis
  proof (cases "outcome e (length (spawned w)) None args")
    case (Inl x)
    with assms pr show ?thesis
      by (simp add: run_pipeline_eq)
  next
    case (Inr res)
    show ?thesis
    proof (cases res)
      case None
      with Inr assms pr show ?thesis
        by (simp add: run_pipeline_eq)
    next
      case (Some p)
      with Inr have ne: "args \<noteq> []" by auto
      from outcome_last [OF Inr [unfolded Some] ne] assms Inr Some ne pr show ?thesis
        by (simp add: run_pipeline_eq)
    qed
  qed
qed

lemma run_pipeline_spawned:
  "print_error e (debug_line args) = None \<Longrightarrow>
   spawned (snd (run_pipeline e w args)) = spawned w @ stages e (length (spawned w)) None args"
  by (simp add: run_pipeline_eq)

lemma run_pipeline_last:
  assumes "fst (run_pipeline e w args) = Some (Inr r)"
  shows "last (spawned (snd (run_pipeline e w args)))
         = last (stages e (length (spawned w)) None args)"
proof -
  from run_pipeline_returns [OF assms]
  have "stages e (length (spawned w)) None args \<noteq> []"
    and "print_error e (debug_line args) = None"
    by auto
  then show ?thesis
    by (simp add: run_pipeline_spawned)
qed

text \<open>Runs on the example host.\<close>

lemmas host_run =
  run_pipeline_eq host_def host_launch_def host_behave_def surface_def started_def str_def
  encode_ascii_def rstrip_def isspace_def is_cont_def ascii_console_def debug_line_def

lemma host_false:
  "fst (run_pipeline host w [[str ''false'']])
   = Some (Inr \<lparr>r_stdout = PBytes [], r_stderr = PNone, r_code = 1\<rparr>)"
  by (simp add: host_run)


section \<open>Properties of the pipeline runner\<close>

text \<open>
  Claim C7 as stated fails in one point: the first command is started with \<open>stdin=None\<close>,
  which does not give it an empty input but the standard input of the script. With the
  line \<open>typed\<close> waiting there, the pipeline \<open>cat | cat\<close> returns that line: the first command
  has received input.
\<close>

theorem inherited_stdin_counterexample:
  "inherited_stdin typing_host = encode_ascii (str ''typed'') @ [10] \<and>
   map p_stdin (spawned (snd (run_pipeline typing_host (world_with None)
         [[str ''cat''], [str ''cat'']])))
     = [NoRedirect, ReadEnd 0] \<and>
   map out_stream (spawned (snd (run_pipeline typing_host (world_with None)
         [[str ''cat''], [str ''cat'']])))
     = [encode_ascii (str ''typed'') @ [10], encode_ascii (str ''typed'') @ [10]] \<and>
   fst (run_pipeline typing_host (world_with None) [[str ''cat''], [str ''cat'']])
     = Some (Inr \<lparr>r_stdout = PStr (str ''typed''), r_stderr = PNone, r_code = 0\<rparr>)"
  by (simp add: host_run typing_host_def world_with_def)

text \<open>
  Claim C7, amended: the runner connects the standard output of command \<open>i\<close> to the
  standard input of command \<open>i + 1\<close>, the standard input of the first command is not
  redirected (it reads what the script has on its own standard input), and only the
  output of the final command is surfaced. Precisely, for every pipeline whose debugging
  line is printed: the processes the call starts are the commands in order, up to the
  first that does not launch; each has its standard output on a pipe and its standard
  error discarded; the first has no redirection of its standard input, each later one
  has the reading end of its predecessor's pipe and reads what the predecessor wrote. If
  a command does not launch, the call raises the error of that launch. If all are
  started, the result is made from the last process alone: the call does not return when
  that process never terminates, and otherwise raises the decoding error or returns the
  record with the decoded output, \<open>None\<close> for the standard error and the exit status (for
  no command at all, \<open>AttributeError\<close>).
\<close>

theorem pipeline_stages_are_connected:
  assumes "print_error e (debug_line args) = None"
  shows "\<exists>procs.
     spawned (snd (run_pipeline e w args)) = spawned w @ procs \<and>
     map argv procs = takeWhile (\<lambda>c. launch_error e c = None) args \<and>
     (\<forall>i. i < length procs \<longrightarrow>
        proc_id (procs ! i) = length (spawned w) + i \<and>
        p_stdout (procs ! i) = PIPE \<and> p_stderr (procs ! i) = DEVNULL \<and>
        p_stdin (procs ! i)
          = (if i = 0 then NoRedirect else ReadEnd (proc_id (procs ! (i - 1)))) \<and>
        (out_stream (procs ! i), err_stream (procs ! i), returncode (procs ! i))
          = behave e (args ! i)
              (if i = 0 then inherited_stdin e else out_stream (procs ! (i - 1)))) \<and>
     (length procs < length args \<longrightarrow>
        (\<exists>x. launch_error e (args ! length procs) = Some x \<and>
             fst (run_pipeline e w args) = Some (Inl x))) \<and>
     (length procs = length args \<longrightarrow>
        fst (run_pipeline e w args) =
          (if args = [] then Some (Inl AttributeError)
           else case returncode (last procs) of
                  None \<Rightarrow> None
                | Some code \<Rightarrow>
                    (case finish_stream (PBytes (out_stream (last procs))) of
                       Inl x \<Rightarrow> Some (Inl x)
                     | Inr so \<Rightarrow>
                         Some (Inr \<lparr>r_stdout = so, r_stderr = PNone, r_code = code\<rparr>))))"
proof -
  let ?n = "length (spawned w)"
  let ?procs = "stages e ?n None args"
  have a: "spawned (snd (run_pipeline e w args)) = spawned w @ ?procs"
    by (rule run_pipeline_spawned [OF assms])
  have b: "map argv ?procs = takeWhile (\<lambda>c. launch_error e c = None) args"
    by (rule stages_argv)
  have c: "proc_id (?procs ! i) = ?n + i \<and>
      p_stdout (?procs ! i) = PIPE \<and> p_stderr (?procs ! i) = DEVNULL \<and>
      p_stdin (?procs ! i)
        = (if i = 0 then NoRedirect else ReadEnd (proc_id (?procs ! (i - 1)))) \<and>
      (out_stream (?procs ! i), err_stream (?procs ! i), returncode (?procs ! i))
        = behave e (args ! i)
            (if i = 0 then inherited_stdin e else out_stream (?procs ! (i - 1)))"
    if "i < length ?procs" for i
  proof -
    have eq: "?procs ! i
        = started e (?n + i) (if i = 0 then None else Some (?procs ! (i - 1))) (args ! i)"
      by (rule stages_nth [OF that])
    show ?thesis
      by (subst (1 2 3 4 5 6 7) eq) (simp add: started_def)
  qed
  have d: "\<exists>x. launch_error e (args ! length ?procs) = Some x \<and>
      fst (run_pipeline e w args) = Some (Inl x)"
    if "length ?procs < length args"
  proof (cases "outcome e ?n None args")
    case (Inl x)
    with outcome_Inl [OF Inl] show ?thesis
      by (simp add: run_pipeline_eq [OF assms])
  next
    case (Inr res)
    with outcome_Inr [OF Inr] that show ?thesis
      by simp
  qed
  have f: "fst (run_pipeline e w args) =
      (if args = [] then Some (Inl AttributeError)
       else case returncode (last ?procs) of
              None \<Rightarrow> None
            | Some code \<Rightarrow>
                (case finish_stream (PBytes (out_stream (last ?procs))) of
                   Inl x \<Rightarrow> Some (Inl x)
                 | Inr so \<Rightarrow> Some (Inr \<lparr>r_stdout = so, r_stderr = PNone, r_code = code\<rparr>)))"
    if "length ?procs = length args"
  proof (cases "outcome e ?n None args")
    case (Inl x)
    with outcome_Inl [OF Inl] that show ?thesis
      by simp
  next
    case (Inr res)
    with outcome_Inr [OF Inr] show ?thesis
      by (simp add: run_pipeline_eq [OF assms] surface_def)
  qed
  from a b c d f show ?thesis
    by blast
qed

theorem pipeline_stages_are_connected_witness:
  "fst (run_pipeline host (world_with None) [[str ''echo'', str ''hello''], [str ''cat''], [str ''cat'']])
     = Some (Inr \<lparr>r_stdout = PStr (str ''hello''), r_stderr = PNone, r_code = 0\<rparr>) \<and>
   map argv (spawned (snd (run_pipeline host (world_with None)
         [[str ''echo'', str ''hello''], [str ''cat''], [str ''cat'']])))
     = [[str ''echo'', str ''hello''], [str ''cat''], [str ''cat'']] \<and>
   map p_stdin (spawned (snd (run_pipeline host (world_with None)
         [[str ''echo'', str ''hello''], [str ''cat''], [str ''cat'']])))
     = [NoRedirect, ReadEnd 0, ReadEnd 1] \<and>
   map out_stream (spawned (snd (run_pipeline host (world_with None)
         [[str ''echo'', str ''hello''], [str ''cat''], [str ''cat'']])))
     = [encode_ascii (str ''hello'') @ [10], encode_ascii (str ''hello'') @ [10],
        encode_ascii (str ''hello'') @ [10]]"
proof -
  let ?args = "[[str ''echo'', str ''hello''], [str ''cat''], [str ''cat'']]"
  let ?run = "run_pipeline host (world_with None) ?args"
  have pr: "print_error host (debug_line ?args) = None"
    by (simp add: host_def ascii_console_def debug_line_def str_def)
  have la: "takeWhile (\<lambda>c. launch_error host c = None) ?args = ?args"
    by (simp add: host_def host_launch_def str_def)
  from pipeline_stages_are_connected [OF pr, of "world_with None"]
  obtain procs where sp: "spawned (snd ?run) = spawned (world_with None) @ procs"
    and av: "map argv procs = takeWhile (\<lambda>c. launch_error host c = None) ?args"
    and wire: "\<And>i. i < length procs \<Longrightarrow>
        p_stdin (procs ! i) = (if i = 0 then NoRedirect else ReadEnd (proc_id (procs ! (i - 1))))
        \<and> proc_id (procs ! i) = length (spawned (world_with None)) + i
        \<and> (out_stream (procs ! i), err_stream (procs ! i), returncode (procs ! i))
          = behave host (?args ! i)
              (if i = 0 then inherited_stdin host else out_stream (procs ! (i - 1)))"
    and ret: "length procs = length ?args \<Longrightarrow>
        fst ?run =
          (if ?args = [] then Some (Inl AttributeError)
           else case returncode (last procs) of
                  None \<Rightarrow> None
                | Some code \<Rightarrow>
                    (case finish_stream (PBytes (out_stream (last procs))) of
                       Inl x \<Rightarrow> Some (Inl x)
                     | Inr so \<Rightarrow>
                         Some (Inr \<lparr>r_stdout = so, r_stderr = PNone, r_code = code\<rparr>)))"
    by blast
  from av have av': "map argv procs = ?args"
    unfolding la .
  then have "length procs = 3"
    by (metis length_map length_Cons list.size(3) numeral_3_eq_3)
  then obtain p0 p1 p2 where procs: "procs = [p0, p1, p2]"
    by (auto simp: numeral_3_eq_3 length_Suc_conv)
  from wire [of 0] wire [of 1] wire [of 2] procs
  have w1: "map p_stdin procs = [NoRedirect, ReadEnd 0, ReadEnd 1]"
    and w2: "map out_stream procs
      = [encode_ascii (str ''hello'') @ [10], encode_ascii (str ''hello'') @ [10],
         encode_ascii (str ''hello'') @ [10]]"
    and w3: "returncode p2 = Some 0"
    by (simp_all add: world_with_def host_def host_behave_def str_def)
  from ret procs w2 w3
  have "fst ?run = Some (Inr \<lparr>r_stdout = PStr (str ''hello''), r_stderr = PNone, r_code = 0\<rparr>)"
    by (simp add: encode_ascii_def str_def rstrip_def isspace_def)
  with sp av' w1 w2 show ?thesis
    by (simp add: world_with_def)
qed

text \<open>
  Claim C3 says that the standard error of the last command is captured and returned,
  so that a pipeline of one command gives what running the command and capturing its
  three results gives. The code starts every process, the last included, with
  \<open>stderr=subprocess.DEVNULL\<close>: whenever the runner returns, the last process has its
  standard error discarded and the \<open>stderr\<close> field of the record is \<open>None\<close>, whatever the
  command wrote there.
\<close>

theorem stderr_of_last_command_discarded:
  assumes "fst (run_pipeline e w args) = Some (Inr r)"
  shows "p_stderr (last (spawned (snd (run_pipeline e w args)))) = DEVNULL \<and> r_stderr r = PNone"
proof -
  from run_pipeline_returns [OF assms]
  have "stages e (length (spawned w)) None args \<noteq> []"
    by auto
  then have "last (stages e (length (spawned w)) None args)
      \<in> set (stages e (length (spawned w)) None args)"
    by (rule last_in_set)
  then have "p_stderr (last (stages e (length (spawned w)) None args)) = DEVNULL"
    by (simp add: stages_pipes)
  moreover from run_pipeline_returns [OF assms] have "r_stderr r = PNone"
    by (auto simp: surface_def split: sum.splits option.splits)
  ultimately show ?thesis
    by (simp add: run_pipeline_last [OF assms])
qed

theorem stderr_of_last_command_discarded_witness:
  "err_stream (last (spawned (snd (run_pipeline host (world_with None) [[str ''ls'', str ''/x'']]))))
     = encode_ascii (str ''ls: cannot access /x'') @ [10] \<and>
   fst (run_pipeline host (world_with None) [[str ''ls'', str ''/x'']])
     = Some (Inr \<lparr>r_stdout = PBytes [], r_stderr = PNone, r_code = 2\<rparr>)"
proof -
  have run: "fst (run_pipeline host (world_with None) [[str ''ls'', str ''/x'']])
      = Some (Inr \<lparr>r_stdout = PBytes [], r_stderr = PNone, r_code = 2\<rparr>)"
    by (simp add: host_run)
  have "err_stream (last (spawned (snd (run_pipeline host (world_with None)
          [[str ''ls'', str ''/x'']]))))
      = encode_ascii (str ''ls: cannot access /x'') @ [10]"
    by (simp add: host_run world_with_def)
  with run stderr_of_last_command_discarded [OF run] show ?thesis
    by simp
qed




text \<open>
  An empty standard output is not replaced by \<open>None\<close>: the empty \<open>bytes\<close> object stays in
  the record.
\<close>

lemma empty_stdout_stays_bytes:
  assumes "fst (run_pipeline e w args) = Some (Inr r)"
    and "out_stream (last (spawned (snd (run_pipeline e w args)))) = []"
  shows "r_stdout r = PBytes []"
  using run_pipeline_returns [OF assms(1)] assms(2)
  unfolding run_pipeline_last [OF assms(1)]
  by (auto simp: surface_def split: sum.splits option.splits)


text \<open>
  Nor does the runner return a record when the final output is not UTF-8, when the final
  process never terminates (\<open>communicate\<close> has no timeout), or when the debugging line
  cannot be printed.
\<close>

lemma invalid_utf8_raises:
  "fst (run_pipeline host (world_with None) [[str ''printf'', [92] @ str ''377'']])
   = Some (Inl UnicodeDecodeError)"
  by (simp add: host_run)

lemma endless_command_never_returns:
  "fst (run_pipeline host (world_with None) [[str ''sleep'', str ''infinity'']]) = None"
  by (simp add: host_run)

lemma unprintable_command_raises:
  "fst (run_pipeline host (world_with None) [[str ''echo'', [233]]])
   = Some (Inl UnicodeEncodeError)"
  by (simp add: run_pipeline_refused host_def ascii_console_def debug_line_def str_def)



section \<open>Properties of the value resolver\<close>

lemma section_names:
  "str ''logs'' \<noteq> default_section" "str ''runs'' \<noteq> default_section"
  "str ''main'' \<noteq> default_section" "str ''main'' \<noteq> []"
  by (simp_all add: default_section_def str_def)

lemma run_pipeline_after_print:
  assumes "fst (run_pipeline e w args) = res" and "print e w line = Inr w0"
  shows "\<exists>w1. run_pipeline e w0 args = (res, w1)"
proof -
  from assms(2) have "length (spawned w0) = length (spawned w)"
    by (auto simp: print_def split: option.splits)
  from run_pipeline_fst [OF this] assms(1) show ?thesis
    by (metis prod.collapse)
qed

lemma conf_get_absent:
  assumes "sections conf (str ''main'') = Some sd"
    and "sd (lower e key) = None" and "defaults conf (lower e key) = None"
  shows "conf_get e conf (str ''main'') key = Inl NoOptionError"
  using assms by (simp add: conf_get_def map_add_def)

lemma conf_get_blank:
  assumes "sections conf (str ''main'') = Some sd"
    and "sd (lower e key) = Some (PStr []) \<or> sd (lower e key) = Some PNone"
  shows "\<exists>v. conf_get e conf (str ''main'') key = Inr v \<and> \<not> truthy v"
  using assms by (auto simp: conf_get_def map_add_def)

lemma conf_set_main:
  assumes "sections conf (str ''main'') = Some sd" and "set_check v = None"
  shows "conf_set e conf (str ''main'') key v
         = Inr (conf\<lparr>sections := (sections conf)(str ''main'' \<mapsto> sd(lower e key \<mapsto> v))\<rparr>)"
  using assms by (simp add: conf_set_def section_names)

lemmas host_resolve =
  find_conf_value_def DEBUG_def host_run conf_get_def conf_set_def ascii_lower_def
  print_concat_def print_def before_set_ok_def keycre_match_def default_section_def
  map_add_def Let_def CONF_FILENAME_def

text \<open>
  Claim C5 as stated fails: not every call in which a tier supplied a value writes it
  into the store. \<open>conf.set\<close> validates the interpolation syntax of the value: when the
  live pipeline prints \<open>50%\<close> the call raises \<open>ValueError\<close> and the store is as it was.
\<close>

theorem live_value_not_stored_counterexample:
  "fst (run_pipeline host (world_with None) [[str ''echo'', str ''50%'']])
     = Some (Inr \<lparr>r_stdout = PStr (str ''50%''), r_stderr = PNone, r_code = 0\<rparr>) \<and>
   fst (find_conf_value host (world_with None) cached_conf (str ''apache_conf_path'')
          [[str ''echo'', str ''50%'']] (str ''/default/path''))
     = Some (Inl ValueError) \<and>
   fst (snd (find_conf_value host (world_with None) cached_conf (str ''apache_conf_path'')
          [[str ''echo'', str ''50%'']] (str ''/default/path'')))
     = cached_conf"
  by (simp add: host_resolve cached_conf_def)

text \<open>
  A live pipeline that exits with status 0 and prints nothing supplies the empty \<open>bytes\<close>
  object, and the debugging line cannot be built from it.
\<close>

lemma empty_live_value_raises:
  "fst (run_pipeline host (world_with None) [[str ''true'']])
     = Some (Inr \<lparr>r_stdout = PBytes [], r_stderr = PNone, r_code = 0\<rparr>) \<and>
   fst (find_conf_value host (world_with None) cached_conf (str ''apache_conf_path'')
          [[str ''true'']] (str ''/default/path''))
     = Some (Inl TypeError)"
  by (simp add: host_resolve cached_conf_def)

text \<open>
  Claim C5, amended: whichever tier supplied the value, a call of the resolver that
  returns has written the returned value into the section \<open>main\<close> of the store under the
  (lower-cased) key, replacing what was there; nothing else in the store has changed.
\<close>

theorem resolved_value_is_stored:
  assumes "find_conf_value e w conf key pipeline_args dflt = (Some (Inr v), conf', w')"
  shows "\<exists>sd. sections conf (str ''main'') = Some sd \<and>
           conf' = conf\<lparr>sections := (sections conf)(str ''main'' \<mapsto> sd(lower e key \<mapsto> v))\<rparr>"
  using assms
  by (auto simp: find_conf_value_def conf_set_def section_names Let_def
      split: prod.splits sum.splits option.splits if_splits)

theorem resolved_value_is_stored_witness:
  "(\<exists>sd. sections cached_conf (str ''main'') = Some sd \<and>
      fst (snd (find_conf_value host (world_with None) cached_conf (str ''apache_conf_path'')
                  [[str ''echo'', str ''/a.conf'']] (str ''/default/path'')))
        = cached_conf\<lparr>sections := (sections cached_conf)
            (str ''main'' \<mapsto> sd(str ''apache_conf_path'' \<mapsto> PStr (str ''/a.conf'')))\<rparr>) \<and>
   (\<exists>sd. sections cached_conf (str ''main'') = Some sd \<and>
      fst (snd (find_conf_value host (world_with None) cached_conf (str ''apache_conf_path'')
                  [[str ''false'']] (str ''/default/path'')))
        = cached_conf\<lparr>sections := (sections cached_conf)
            (str ''main'' \<mapsto> sd(str ''apache_conf_path'' \<mapsto> PStr (str ''/opt/httpd/httpd.conf'')))\<rparr>) \<and>
   (\<exists>sd. sections blank_conf (str ''main'') = Some sd \<and>
      fst (snd (find_conf_value host (world_with None) blank_conf (str ''apache_conf_path'')
                  [[str ''false'']] (str ''/default/path'')))
        = blank_conf\<lparr>sections := (sections blank_conf)
            (str ''main'' \<mapsto> sd(str ''apache_conf_path'' \<mapsto> PStr (str ''/default/path'')))\<rparr>)"
proof -
  let ?key = "str ''apache_conf_path''"
  let ?live = "find_conf_value host (world_with None) cached_conf ?key
      [[str ''echo'', str ''/a.conf'']] (str ''/default/path'')"
  let ?cached = "find_conf_value host (world_with None) cached_conf ?key
      [[str ''false'']] (str ''/default/path'')"
  let ?dflt = "find_conf_value host (world_with None) blank_conf ?key
      [[str ''false'']] (str ''/default/path'')"
  have l: "lower host ?key = ?key"
    by (simp add: host_def ascii_lower_def str_def)
  have "fst ?live = Some (Inr (PStr (str ''/a.conf'')))"
    by (simp add: host_resolve cached_conf_def)
  then have a: "?live = (Some (Inr (PStr (str ''/a.conf''))), fst (snd ?live), snd (snd ?live))"
    by (metis prod.collapse)
  have "fst ?cached = Some (Inr (PStr (str ''/opt/httpd/httpd.conf'')))"
    by (simp add: host_resolve cached_conf_def)
  then have b: "?cached
      = (Some (Inr (PStr (str ''/opt/httpd/httpd.conf''))), fst (snd ?cached), snd (snd ?cached))"
    by (metis prod.collapse)
  have "fst ?dflt = Some (Inr (PStr (str ''/default/path'')))"
    by (simp add: host_resolve blank_conf_def)
  then have c: "?dflt
      = (Some (Inr (PStr (str ''/default/path''))), fst (snd ?dflt), snd (snd ?dflt))"
    by (metis prod.collapse)
  from resolved_value_is_stored [OF a] resolved_value_is_stored [OF b]
    resolved_value_is_stored [OF c]
  show ?thesis
    unfolding l by blast
qed

text \<open>
  Claim C2 says that, when the pipeline exits with a non-zero status and \<open>main\<close> has no
  entry for the key, the resolver does not raise and returns the default. The code
  calls \<open>conf.get('main', key)\<close> without a fallback: for a key that is in neither \<open>main\<close>
  nor the defaults of the parser the call raises \<open>NoOptionError\<close> (unless printing the
  first debugging line has raised before), and the store is as it was.
\<close>

theorem resolver_raises_on_absent_key:
  assumes "fst (run_pipeline e w pipeline_args) = Some (Inr r)"
    and "r_code r \<noteq> 0"
    and "sections conf (str ''main'') = Some sd"
    and "sd (lower e key) = None"
    and "defaults conf (lower e key) = None"
  shows "fst (find_conf_value e w conf key pipeline_args dflt)
           = Some (Inl (case print_error e (str ''Finding conf value of '' @ key) of
                          None \<Rightarrow> NoOptionError
                        | Some x \<Rightarrow> x)) \<and>
         fst (snd (find_conf_value e w conf key pipeline_args dflt)) = conf"
proof (cases "print_error e (str ''Finding conf value of '' @ key)")
  case (Some x)
  then show ?thesis
    by (simp add: find_conf_value_def DEBUG_def print_def)
next
  case None
  then obtain w0 where p: "print e w (str ''Finding conf value of '' @ key) = Inr w0"
    by (simp add: print_def)
  from run_pipeline_after_print [OF assms(1) p] obtain w1 where
    "run_pipeline e w0 pipeline_args = (Some (Inr r), w1)"
    by blast
  then show ?thesis
    using assms(2) conf_get_absent [OF assms(3-5)] None p
    by (simp add: find_conf_value_def DEBUG_def)
qed

theorem resolver_raises_on_absent_key_witness:
  "fst (find_conf_value host (world_with None) bare_conf (str ''apache_conf_path'')
          [[str ''false'']] (str ''/default/path''))
     = Some (Inl NoOptionError) \<and>
   fst (snd (find_conf_value host (world_with None) bare_conf (str ''apache_conf_path'')
          [[str ''false'']] (str ''/default/path'')))
     = bare_conf"
proof -
  have m: "sections bare_conf (str ''main'') = Some Map.empty"
    by (simp add: bare_conf_def)
  have r: "r_code \<lparr>r_stdout = PBytes [], r_stderr = PNone, r_code = 1\<rparr> \<noteq> 0"
    by simp
  have d: "defaults bare_conf (lower host (str ''apache_conf_path'')) = None"
    by (simp add: bare_conf_def)
  have p: "print_error host (str ''Finding conf value of '' @ str ''apache_conf_path'') = None"
    by (simp add: host_def ascii_console_def str_def)
  from resolver_raises_on_absent_key [OF host_false r m _ d, of "world_with None"]
  show ?thesis
    by (simp add: p)
qed

text \<open>
  Claim C9 as stated fails for a default that the store refuses: \<open>conf.set\<close> validates the
  interpolation syntax of a non-empty value and raises \<open>ValueError\<close> for a lone percent
  sign.
\<close>

theorem percent_default_counterexample:
  "fst (run_pipeline host (world_with None) [[str ''false'']])
     = Some (Inr \<lparr>r_stdout = PBytes [], r_stderr = PNone, r_code = 1\<rparr>) \<and>
   sections blank_conf (str ''main'')
     = Some [str ''apache_conf_path'' \<mapsto> PStr [], str ''ood_portal_conf_path'' \<mapsto> PNone] \<and>
   fst (find_conf_value host (world_with None) blank_conf (str ''apache_conf_path'')
          [[str ''false'']] (str ''50%''))
     = Some (Inl ValueError)"
proof -
  have "fst (find_conf_value host (world_with None) blank_conf (str ''apache_conf_path'')
          [[str ''false'']] (str ''50%'')) = Some (Inl ValueError)"
    by (simp add: host_resolve blank_conf_def)
  then show ?thesis
    by (simp add: host_false blank_conf_def)
qed

text \<open>
  The default is printed before it is stored: a default the console cannot show makes
  the call raise, although the store would accept it.
\<close>

lemma unprintable_default_raises:
  "set_check (PStr [233]) = None \<and>
   fst (find_conf_value host (world_with None) blank_conf (str ''apache_conf_path'')
          [[str ''false'']] [233])
     = Some (Inl UnicodeEncodeError)"
  by (simp add: host_resolve blank_conf_def)

text \<open>
  Claim C9, amended: when the pipeline exits with a non-zero status and \<open>main\<close> has an
  entry for the key whose value is the empty string or \<open>None\<close>, the default is a value
  \<open>conf.set\<close> accepts, and the two debugging lines of the call (the one that names the key
  and the one that shows the default) are printed, the resolver returns the default and
  writes it into the store under the key.
\<close>

theorem blank_entry_gives_default:
  assumes "fst (run_pipeline e w pipeline_args) = Some (Inr r)"
    and "r_code r \<noteq> 0"
    and "sections conf (str ''main'') = Some sd"
    and "sd (lower e key) = Some (PStr []) \<or> sd (lower e key) = Some PNone"
    and "set_check (PStr dflt) = None"
    and "print_error e (str ''Finding conf value of '' @ key) = None"
    and "print_error e (str ''Using default value for '' @ key @ str '': '' @ dflt) = None"
  shows "fst (find_conf_value e w conf key pipeline_args dflt) = Some (Inr (PStr dflt)) \<and>
         fst (snd (find_conf_value e w conf key pipeline_args dflt))
           = conf\<lparr>sections := (sections conf)(str ''main'' \<mapsto> sd(lower e key \<mapsto> PStr dflt))\<rparr>"
proof -
  from assms(6) obtain w0 where p: "print e w (str ''Finding conf value of '' @ key) = Inr w0"
    by (simp add: print_def)
  from run_pipeline_after_print [OF assms(1) p] obtain w1 where
    "run_pipeline e w0 pipeline_args = (Some (Inr r), w1)"
    by blast
  moreover from conf_get_blank [OF assms(3,4)] obtain v where
    "conf_get e conf (str ''main'') key = Inr v" "\<not> truthy v"
    by blast
  ultimately show ?thesis
    using assms(2,7) conf_set_main [OF assms(3,5)] p
    by (simp add: find_conf_value_def DEBUG_def print_concat_def print_def)
qed

theorem blank_entry_gives_default_witness:
  "fst (find_conf_value host (world_with None) blank_conf (str ''apache_conf_path'')
          [[str ''false'']] (str ''/default/path''))
     = Some (Inr (PStr (str ''/default/path''))) \<and>
   fst (find_conf_value host (world_with None) blank_conf (str ''ood_portal_conf_path'')
          [[str ''false'']] (str ''/default/path''))
     = Some (Inr (PStr (str ''/default/path''))) \<and>
   fst (snd (find_conf_value host (world_with None) blank_conf
          (str ''ood_portal_conf_path'') [[str ''false'']] (str ''/default/path'')))
     = blank_conf\<lparr>sections := (sections blank_conf)
         (str ''main'' \<mapsto>
            [str ''apache_conf_path'' \<mapsto> PStr [], str ''ood_portal_conf_path'' \<mapsto> PNone]
            (str ''ood_portal_conf_path'' \<mapsto> PStr (str ''/default/path'')))\<rparr>"
proof -
  have m: "sections blank_conf (str ''main'')
      = Some [str ''apache_conf_path'' \<mapsto> PStr [], str ''ood_portal_conf_path'' \<mapsto> PNone]"
    by (simp add: blank_conf_def)
  have c: "set_check (PStr (str ''/default/path'')) = None"
    by (simp add: before_set_ok_def keycre_match_def str_def)
  have l: "lower host (str ''apache_conf_path'') = str ''apache_conf_path''"
    "lower host (str ''ood_portal_conf_path'') = str ''ood_portal_conf_path''"
    by (simp_all add: host_def ascii_lower_def str_def)
  have d: "str ''apache_conf_path'' \<noteq> str ''ood_portal_conf_path''"
    by (simp add: str_def)
  have r: "r_code \<lparr>r_stdout = PBytes [], r_stderr = PNone, r_code = 1\<rparr> \<noteq> 0"
    by simp
  have k1: "[str ''apache_conf_path'' \<mapsto> PStr [], str ''ood_portal_conf_path'' \<mapsto> PNone]
        (lower host (str ''apache_conf_path'')) = Some (PStr []) \<or>
      [str ''apache_conf_path'' \<mapsto> PStr [], str ''ood_portal_conf_path'' \<mapsto> PNone]
        (lower host (str ''apache_conf_path'')) = Some PNone"
    using d by (simp add: l)
  have k2: "[str ''apache_conf_path'' \<mapsto> PStr [], str ''ood_portal_conf_path'' \<mapsto> PNone]
        (lower host (str ''ood_portal_conf_path'')) = Some (PStr []) \<or>
      [str ''apache_conf_path'' \<mapsto> PStr [], str ''ood_portal_conf_path'' \<mapsto> PNone]
        (lower host (str ''ood_portal_conf_path'')) = Some PNone"
    by (simp add: l)
  have p1: "print_error host (str ''Finding conf value of '' @ str ''apache_conf_path'') = None"
    "print_error host (str ''Using default value for '' @ str ''apache_conf_path'' @ str '': ''
        @ str ''/default/path'') = None"
    by (simp_all add: host_def ascii_console_def str_def)
  have p2: "print_error host (str ''Finding conf value of '' @ str ''ood_portal_conf_path'') = None"
    "print_error host (str ''Using default value for '' @ str ''ood_portal_conf_path'' @ str '': ''
        @ str ''/default/path'') = None"
    by (simp_all add: host_def ascii_console_def str_def)
  from blank_entry_gives_default [OF host_false r m k1 c p1, of "world_with None"]
    blank_entry_gives_default [OF host_false r m k2 c p2, of "world_with None"]
  show ?thesis
    unfolding l by blast
qed

section \<open>Properties of the script\<close>

text \<open>
  The script passes the pipeline under the keyword \<open>command_args\<close>; the function has no
  parameter of that name.
\<close>

lemma misnamed_keyword:
  "bind_args find_conf_value_params [c] [(''key'', k), (''command_args'', p), (''default'', d)]
   = Inl TypeError"
  by (simp add: bind_args_def find_conf_value_params_def)

text \<open>
  Claim C6: if the configuration file cannot be read (it is not there, or the parser
  rejects it), or it lacks the section \<open>logs\<close> or the section \<open>runs\<close>, the script raises
  an error and leaves the world as it found it: no pipeline has run, nothing is written,
  the file is unmodified.
\<close>

theorem script_fails_fast:
  "(files w CONF_FILENAME = None \<longrightarrow> script e w = (Some (Inl FileNotFoundError), w)) \<and>
   (\<forall>text x. files w CONF_FILENAME = Some text \<and> parse_ini e text = Inl x
        \<longrightarrow> script e w = (Some (Inl x), w)) \<and>
   (\<forall>text conf. files w CONF_FILENAME = Some text \<and> parse_ini e text = Inr conf
        \<and> (\<not> has_section conf (str ''logs'') \<or> \<not> has_section conf (str ''runs''))
        \<longrightarrow> script e w = (Some (Inl KeyError), w))"
  by (auto simp: script_def getitem_ok_def section_names)

theorem script_fails_fast_witness:
  "script host (world_with None) = (Some (Inl FileNotFoundError), world_with None) \<and>
   script host (world_with (Some headerless_ini))
     = (Some (Inl ParsingError), world_with (Some headerless_ini)) \<and>
   script host (world_with (Some bare_ini)) = (Some (Inl KeyError), world_with (Some bare_ini))"
proof -
  have a: "files (world_with None) CONF_FILENAME = None"
    by (simp add: world_with_def)
  have b: "files (world_with (Some headerless_ini)) CONF_FILENAME = Some headerless_ini
      \<and> parse_ini host headerless_ini = Inl ParsingError"
    by (simp add: world_with_def host_def host_parse_def headerless_ini_def cached_ini_def
        bare_ini_def str_def)
  have c: "files (world_with (Some bare_ini)) CONF_FILENAME = Some bare_ini
      \<and> parse_ini host bare_ini = Inr bare_conf
      \<and> (\<not> has_section bare_conf (str ''logs'') \<or> \<not> has_section bare_conf (str ''runs''))"
    by (simp add: world_with_def host_def host_parse_def cached_ini_def bare_ini_def
        has_section_def bare_conf_def str_def)
  from a b c
    script_fails_fast [of "world_with None" host]
    script_fails_fast [of "world_with (Some headerless_ini)" host]
    script_fails_fast [of "world_with (Some bare_ini)" host]
  show ?thesis
    by blast
qed

text \<open>
  Claim C1 says that, when the configuration file exists and has the required sections,
  the script resolves the three keys, rewrites the file and ends with status 0. The
  code does not: the first call of the resolver raises \<open>TypeError\<close> while its arguments
  are bound, so the script ends with that exception and the world is as it was (no
  process started, no file written, nothing printed).
\<close>

theorem script_stops_at_first_resolution:
  assumes "files w CONF_FILENAME = Some text"
    and "parse_ini e text = Inr conf"
    and "has_section conf (str ''logs'')"
    and "has_section conf (str ''runs'')"
  shows "script e w = (Some (Inl TypeError), w)"
  using assms
  by (simp add: script_def getitem_ok_def call_find_conf_value_def misnamed_keyword)

theorem script_stops_at_first_resolution_witness:
  "script host (world_with (Some cached_ini))
   = (Some (Inl TypeError), world_with (Some cached_ini))"
proof -
  have f: "files (world_with (Some cached_ini)) CONF_FILENAME = Some cached_ini"
    by (simp add: world_with_def)
  have p: "parse_ini host cached_ini = Inr cached_conf"
    by (simp add: host_def host_parse_def)
  have l: "has_section cached_conf (str ''logs'')"
    by (simp add: has_section_def cached_conf_def str_def)
  have r: "has_section cached_conf (str ''runs'')"
    by (simp add: has_section_def cached_conf_def str_def)
  show ?thesis
    by (rule script_stops_at_first_resolution [OF f p l r])
qed

text \<open>On \<open>failing_host\<close> the three pipelines of the script exit with status 1.\<close>

lemma failing_host_pipelines:
  "fst (run_pipeline failing_host w apache_conf_pipeline)
     = Some (Inr \<lparr>r_stdout = PBytes [], r_stderr = PNone, r_code = 1\<rparr>)"
  "fst (run_pipeline failing_host w ood_portal_conf_pipeline)
     = Some (Inr \<lparr>r_stdout = PBytes [], r_stderr = PNone, r_code = 1\<rparr>)"
  "fst (run_pipeline failing_host w (access_log_pipeline (str ''/opt/httpd/ood-portal.conf'')))
     = Some (Inr \<lparr>r_stdout = PBytes [], r_stderr = PNone, r_code = 1\<rparr>)"
  by (simp_all add: run_pipeline_eq failing_host_def host_def surface_def started_def
      apache_conf_pipeline_def ood_portal_conf_pipeline_def access_log_pipeline_def
      ascii_console_def debug_line_def str_def)

text \<open>
  Claim C8 says that, with cached values for the three keys and pipelines that all exit
  with a non-zero status, a run leaves a file that is the input with the header comment
  put at its top. On \<open>failing_host\<close>, with the three values cached in a file that has no
  header, the run ends with \<open>TypeError\<close> at the first call of the resolver; the file is
  the input, unchanged, and does not begin with the header.
\<close>

theorem rerun_leaves_file_without_header:
  "fst (run_pipeline failing_host (world_with (Some cached_ini)) apache_conf_pipeline)
     = Some (Inr \<lparr>r_stdout = PBytes [], r_stderr = PNone, r_code = 1\<rparr>) \<and>
   fst (script failing_host (world_with (Some cached_ini))) = Some (Inl TypeError) \<and>
   files (snd (script failing_host (world_with (Some cached_ini)))) CONF_FILENAME
     = Some cached_ini \<and>
   (\<forall>rest. cached_ini \<noteq> comment_header @ rest)"
proof -
  have "script failing_host (world_with (Some cached_ini))
      = (Some (Inl TypeError), world_with (Some cached_ini))"
    by (simp add: script_def getitem_ok_def call_find_conf_value_def misnamed_keyword
        world_with_def failing_host_def host_def host_parse_def has_section_def
        cached_conf_def str_def)
  moreover have "cached_ini \<noteq> comment_header @ rest" for rest
    by (simp add: cached_ini_def comment_header_def str_def)
  ultimately show ?thesis
    by (simp add: world_with_def failing_host_pipelines)
qed

end
